theory Spec2Isabelle
  imports Main
begin

section \<open>Python values\<close>

text \<open>
  A Python float is identified by the text that \<^verbatim>\<open>str()\<close> prints for it
  (\<^verbatim>\<open>0.0\<close>, \<^verbatim>\<open>-0.0\<close>, \<^verbatim>\<open>12.9\<close>, \<^verbatim>\<open>nan\<close>, ...). The program observes a
  float in two ways only: it formats it inside f-strings, and it tests its truth value,
  which is false exactly for the two zeros.
\<close>

datatype pyfloat = PyFloat string

fun float_str :: "pyfloat \<Rightarrow> string" where
  "float_str (PyFloat r) = r"

fun float_is_zero :: "pyfloat \<Rightarrow> bool" where
  "float_is_zero (PyFloat r) = (r = ''0.0'' \<or> r = ''-0.0'')"

text \<open>
  The values \<^verbatim>\<open>response.json()\<close> can return, which are also the values that flow through
  \<^verbatim>\<open>reverse_geocode\<close>. \<open>PDict\<close> lists the items of a dict (its keys are distinct);
  lookup takes the binding of the key.
\<close>

datatype pyval =
    PNone
  | PBool bool
  | PInt int
  | PFloat pyfloat
  | PStr string
  | PList "pyval list"
  | PDict "(string \<times> pyval) list"

text \<open>
  The exceptions of the program. The first five are raised by the interpreter on the
  values above; \<open>LibraryError\<close> is an exception raised by an external call (network,
  device, file system, mail relay) and carries the text of \<^verbatim>\<open>str(e)\<close>.
\<close>

datatype py_error =
    AttributeError
  | KeyError
  | TypeError
  | IndexError
  | ValueError
  | LibraryError string

text \<open>
  \<^verbatim>\<open>str(e)\<close> as the progress updates print it. Only exceptions of external calls are
  printed; the text of the interpreter's own exceptions is not modelled.
\<close>

fun error_text :: "py_error \<Rightarrow> string" where
  "error_text (LibraryError m) = m"
| "error_text _ = []"

text \<open>Sequencing of steps that may raise: the first exception ends the block.\<close>

fun and_then :: "py_error + 'a \<Rightarrow> ('a \<Rightarrow> py_error + 'b) \<Rightarrow> py_error + 'b" where
  "and_then (Inl e) f = Inl e"
| "and_then (Inr x) f = f x"

text \<open>Truth value of a Python object, as \<^verbatim>\<open>if x\<close> and \<^verbatim>\<open>not x\<close> test it.\<close>

fun truthy :: "pyval \<Rightarrow> bool" where
  "truthy PNone = False"
| "truthy (PBool b) = b"
| "truthy (PInt i) = (i \<noteq> 0)"
| "truthy (PFloat f) = (\<not> float_is_zero f)"
| "truthy (PStr s) = (s \<noteq> [])"
| "truthy (PList xs) = (xs \<noteq> [])"
| "truthy (PDict kvs) = (kvs \<noteq> [])"

text \<open>\<^verbatim>\<open>x.get(key, default)\<close>: only a dict has the method.\<close>

fun py_get :: "pyval \<Rightarrow> string \<Rightarrow> pyval \<Rightarrow> py_error + pyval" where
  "py_get (PDict kvs) k d = Inr (case map_of kvs k of Some v \<Rightarrow> v | None \<Rightarrow> d)"
| "py_get _ k d = Inl AttributeError"

text \<open>\<^verbatim>\<open>x['key']\<close> with a string key.\<close>

fun py_item :: "pyval \<Rightarrow> string \<Rightarrow> py_error + pyval" where
  "py_item (PDict kvs) k = (case map_of kvs k of Some v \<Rightarrow> Inr v | None \<Rightarrow> Inl KeyError)"
| "py_item _ k = Inl TypeError"

text \<open>
  \<^verbatim>\<open>x[0]\<close>. The keys of a dict that came from JSON are strings, so the key \<^verbatim>\<open>0\<close>
  is never present in one.
\<close>

fun py_first :: "pyval \<Rightarrow> py_error + pyval" where
  "py_first (PList []) = Inl IndexError"
| "py_first (PList (x # xs)) = Inr x"
| "py_first (PStr []) = Inl IndexError"
| "py_first (PStr (c # cs)) = Inr (PStr [c])"
| "py_first (PDict kvs) = Inl KeyError"
| "py_first _ = Inl TypeError"

text \<open>\<^verbatim>\<open>s.split(sep)\<close> for a one-character separator.\<close>

fun split_on :: "char \<Rightarrow> string \<Rightarrow> string list" where
  "split_on sep [] = [[]]"
| "split_on sep (c # cs) =
     (if c = sep then [] # split_on sep cs
      else (case split_on sep cs of
              [] \<Rightarrow> [[c]]
            | w # ws \<Rightarrow> (c # w) # ws))"

text \<open>\<^verbatim>\<open>x.split(',')\<close>: only a str has the method.\<close>

fun py_split :: "pyval \<Rightarrow> py_error + string list" where
  "py_split (PStr s) = Inr (split_on CHR '','' s)"
| "py_split _ = Inl AttributeError"

text \<open>\<^verbatim>\<open>xs[i]\<close> on a list of strings, for the indices 0 and 1 that the program uses.\<close>

definition list_item :: "'a list \<Rightarrow> nat \<Rightarrow> py_error + 'a" where
  "list_item xs i = (if i < length xs then Inr (xs ! i) else Inl IndexError)"

text \<open>How an f-string prints a coordinate that may be \<^verbatim>\<open>None\<close>.\<close>

fun format_coord :: "pyfloat option \<Rightarrow> string" where
  "format_coord None = ''None''"
| "format_coord (Some f) = float_str f"

section \<open>The world outside the program\<close>

text \<open>
  A response of \<^verbatim>\<open>requests.get\<close>: its status code and what \<^verbatim>\<open>response.json()\<close>
  does (it raises on a body that is not JSON).
\<close>

record http_response =
  status_code :: int
  json :: "py_error + pyval"

text \<open>
  The multipart message of \<^verbatim>\<open>send_email_alert\<close>: its three headers and the parts
  attached to it, in order. \<open>MIMEText t\<close> is a plain text part; \<open>MIMEApplication b st fn\<close>
  carries the bytes \<open>b\<close> with subtype \<open>st\<close> and the attachment file name \<open>fn\<close>.
\<close>

datatype mime_part =
    MIMEText string
  | MIMEApplication string string string

record message =
  msg_from :: string
  msg_to :: string
  msg_subject :: string
  parts :: "mime_part list"

text \<open>
  What a run does to its surroundings, in the order of the source: the progress updates
  handed to \<^verbatim>\<open>status_callback\<close>, the HTTP requests and the calls on the mail relay.
  The calls of \<^verbatim>\<open>logger\<close> are left out.
\<close>

datatype event =
    Status string bool
  | HttpGet string
  | SmtpConnect string nat
  | SmtpStartTls
  | SmtpLogin string string
  | SmtpSendmail string "string list" message
  | SmtpQuit

text \<open>The files of the working directory: a path is mapped to the bytes of its file.\<close>

type_synonym files = "string \<Rightarrow> string option"

text \<open>
  What the audio block found: an exception raised by \<^verbatim>\<open>sd.rec\<close>, \<^verbatim>\<open>sd.wait\<close> or
  \<^verbatim>\<open>sf.write\<close>, or the bytes of the file that \<^verbatim>\<open>sf.write\<close> wrote.
\<close>

datatype audio_device =
    AudioFailed py_error
  | AudioWritten string

text \<open>
  What the video block found. \<open>VideoFailed e left\<close>: a call on the device or the writer
  raised \<open>e\<close>, and the writer had done \<open>left\<close> to the file by then. \<open>VideoClosed\<close>:
  \<^verbatim>\<open>cap.isOpened()\<close> is false. \<open>VideoOpened seconds ret left\<close>: the device opened;
  \<open>seconds i\<close> is \<^verbatim>\<open>(datetime.now() - start_time).seconds\<close> at the
  test of iteration \<open>i\<close>, \<open>ret i\<close> is the flag that \<^verbatim>\<open>cap.read()\<close> returns there, and
  \<open>left n\<close> is what \<^verbatim>\<open>cv2.VideoWriter\<close> has done to the file once it is released after
  \<open>n\<close> frames. For the writer, \<open>None\<close> means that it created no file and \<open>Some b\<close> that
  the file now holds the bytes \<open>b\<close>.
\<close>

datatype video_device =
    VideoFailed py_error "string option"
  | VideoClosed
  | VideoOpened "nat \<Rightarrow> nat" "nat \<Rightarrow> bool" "nat \<Rightarrow> string option"

text \<open>
  Everything the program asks of its surroundings. An optional \<open>py_error\<close> is the
  exception that the call raises, \<open>None\<close> when it returns.
\<close>

record world =
  builtin_float :: "string \<Rightarrow> pyfloat option"
  builtin_str :: "pyval \<Rightarrow> string"
  requests_get :: "string \<Rightarrow> py_error + http_response"
  environ :: "string \<Rightarrow> string option"
  stamp_now :: string
  time_now :: string
  audio :: audio_device
  video :: video_device
  write_file :: "string \<Rightarrow> nat \<Rightarrow> py_error option"
  read_file :: "string \<Rightarrow> py_error option"
  mime_text :: "string \<Rightarrow> py_error option"
  smtp_connect :: "py_error option"
  smtp_starttls :: "py_error option"
  smtp_login :: "string \<Rightarrow> string \<Rightarrow> py_error option"
  as_string :: "message \<Rightarrow> py_error option"
  smtp_sendmail :: "string \<Rightarrow> string list \<Rightarrow> message \<Rightarrow> py_error option"
  smtp_quit :: "py_error option"

text \<open>
  \<open>builtin_float\<close> is the builtin \<^verbatim>\<open>float()\<close> on a string and \<open>builtin_str\<close> the builtin
  \<^verbatim>\<open>str()\<close> on a value that is not a string; \<open>stamp_now\<close> is
  \<^verbatim>\<open>datetime.now().strftime('%Y%m%d_%H%M%S')\<close> at line 174 and \<open>time_now\<close> is
  \<^verbatim>\<open>datetime.now().strftime('%Y-%m-%d %H:%M:%S')\<close> at line 90; \<open>write_file path k\<close>
  is the \<^verbatim>\<open>open(path, 'wb')\<close> and \<^verbatim>\<open>write\<close> of a placeholder at the attempt number
  \<open>k\<close> on that path (a write that raises leaves the files as they were), \<open>read_file\<close>
  the \<^verbatim>\<open>open(path, 'rb')\<close> and \<^verbatim>\<open>read\<close> of an attachment. The files change through
  the run itself only.

  A string of the model holds the bytes of a Python \<^verbatim>\<open>str\<close>, so whether a text can be
  encoded is not read off the string: \<open>mime_text t\<close> is what \<^verbatim>\<open>MIMEText(t, 'plain')\<close>
  does at line 91 (it raises UnicodeEncodeError on a text with a lone surrogate, which a
  label out of the geocoder's JSON can carry), and \<open>as_string m\<close> is what
  \<^verbatim>\<open>msg.as_string()\<close> does at line 134 (it raises on a header with a line feed in it).
  The four notes of the source are ASCII constants, which \<^verbatim>\<open>MIMEText\<close> accepts.
\<close>

section \<open>Location\<close>

text \<open>
  \<^verbatim>\<open>get_ip_location\<close>, lines 24 to 38. \<open>float_of\<close> is the builtin \<^verbatim>\<open>float()\<close>
  on a string (\<open>None\<close> when it raises ValueError) and \<open>got\<close> is what
  \<^verbatim>\<open>requests.get('https://ipinfo.io/json')\<close> did. The body of the \<^verbatim>\<open>try\<close> comes first;
  the function itself turns every exception into \<^verbatim>\<open>(None, None)\<close>.
\<close>

definition py_float :: "(string \<Rightarrow> pyfloat option) \<Rightarrow> string \<Rightarrow> py_error + pyfloat" where
  "py_float float_of s = (case float_of s of None \<Rightarrow> Inl ValueError | Some f \<Rightarrow> Inr f)"

definition get_ip_location_try ::
  "(string \<Rightarrow> pyfloat option) \<Rightarrow> py_error + http_response \<Rightarrow> py_error + (pyfloat \<times> pyfloat)" where
  "get_ip_location_try float_of got =
     and_then got (\<lambda>response.
     and_then (json response) (\<lambda>data.
     and_then (py_get data ''loc'' (PStr ''0,0'')) (\<lambda>v.
     and_then (py_split v) (\<lambda>loc.
     and_then (list_item loc 0) (\<lambda>l0.
     and_then (py_float float_of l0) (\<lambda>latitude.
     and_then (list_item loc 1) (\<lambda>l1.
     and_then (py_float float_of l1) (\<lambda>longitude.
     Inr (latitude, longitude)))))))))"

definition get_ip_location ::
  "(string \<Rightarrow> pyfloat option) \<Rightarrow> py_error + http_response \<Rightarrow> pyfloat option \<times> pyfloat option" where
  "get_ip_location float_of got =
     (case get_ip_location_try float_of got of
        Inr (latitude, longitude) \<Rightarrow> (Some latitude, Some longitude)
      | Inl e \<Rightarrow> (None, None))"

text \<open>
  \<^verbatim>\<open>reverse_geocode\<close>, lines 41 to 67. The key is \<open>None\<close> or a string; a coordinate
  is \<open>None\<close> or a float. \<open>http_get\<close> is \<^verbatim>\<open>requests.get\<close> as a function of the URL.
  The result is the label together with the requests that were sent.
\<close>

definition coordinates_label :: "pyfloat option \<Rightarrow> pyfloat option \<Rightarrow> string" where
  "coordinates_label latitude longitude =
     ''Coordinates: '' @ format_coord latitude @ '', '' @ format_coord longitude"

definition not_key :: "string option \<Rightarrow> bool" where
  "not_key api_key = (case api_key of None \<Rightarrow> True | Some k \<Rightarrow> k = [])"

definition not_coord :: "pyfloat option \<Rightarrow> bool" where
  "not_coord c = (case c of None \<Rightarrow> True | Some f \<Rightarrow> float_is_zero f)"

text \<open>How an f-string prints the key, which may be \<^verbatim>\<open>None\<close>.\<close>

definition format_key :: "string option \<Rightarrow> string" where
  "format_key api_key = (case api_key of None \<Rightarrow> ''None'' | Some k \<Rightarrow> k)"

definition geocode_url :: "string option \<Rightarrow> pyfloat option \<Rightarrow> pyfloat option \<Rightarrow> string" where
  "geocode_url api_key latitude longitude =
     ''https://geocode.reverse.hereapi.com/v1/reverse?at='' @ format_coord latitude @ '',''
       @ format_coord longitude @ ''&apiKey='' @ format_key api_key"

text \<open>
  The body of the \<^verbatim>\<open>try\<close> once the request has returned: \<open>Inr (Some v)\<close> is the
  \<^verbatim>\<open>return\<close> of line 59, \<open>Inr None\<close> is falling through to line 62.
\<close>

definition reverse_geocode_try ::
  "pyfloat option \<Rightarrow> pyfloat option \<Rightarrow> py_error + http_response \<Rightarrow> py_error + pyval option" where
  "reverse_geocode_try latitude longitude got =
     and_then got (\<lambda>response.
       if status_code response = 200 then
         and_then (json response) (\<lambda>data.
         and_then (py_get data ''items'' (PList [])) (\<lambda>items.
           if truthy items then
             and_then (py_item data ''items'') (\<lambda>its.
             and_then (py_first its) (\<lambda>item.
             and_then (py_item item ''address'') (\<lambda>address.
             and_then (py_get address ''label'' (PStr (coordinates_label latitude longitude))) (\<lambda>label.
             Inr (Some label)))))
           else Inr None))
       else Inr None)"

definition reverse_geocode ::
  "(string \<Rightarrow> py_error + http_response) \<Rightarrow> string option \<Rightarrow> pyfloat option \<Rightarrow> pyfloat option
     \<Rightarrow> pyval \<times> event list" where
  "reverse_geocode http_get api_key latitude longitude =
     (if not_key api_key \<or> not_coord latitude \<or> not_coord longitude
      then (PStr (coordinates_label latitude longitude), [])
      else
        let url = geocode_url api_key latitude longitude in
        (case reverse_geocode_try latitude longitude (http_get url) of
           Inr (Some label) \<Rightarrow> (label, [HttpGet url])
         | Inr None \<Rightarrow> (PStr (coordinates_label latitude longitude), [HttpGet url])
         | Inl e \<Rightarrow> (PStr (coordinates_label latitude longitude), [HttpGet url])))"


section \<open>Notification\<close>

text \<open>\<^verbatim>\<open>send_sms_alert\<close>, lines 70 to 76: it returns \<^verbatim>\<open>True\<close> and calls nothing but the logger.\<close>

definition send_sms_alert :: "string \<Rightarrow> bool \<times> event list" where
  "send_sms_alert message = (True, [])"

text \<open>\<^verbatim>\<open>sep.join(xs)\<close>, \<^verbatim>\<open>os.path.basename\<close>, \<^verbatim>\<open>os.path.exists\<close> and \<^verbatim>\<open>os.path.getsize\<close>.\<close>

fun join :: "string \<Rightarrow> string list \<Rightarrow> string" where
  "join sep [] = []"
| "join sep [x] = x"
| "join sep (x # y # ys) = x @ sep @ join sep (y # ys)"

definition basename :: "string \<Rightarrow> string" where
  "basename path = last (split_on CHR ''/'' path)"

definition exists_file :: "files \<Rightarrow> string \<Rightarrow> bool" where
  "exists_file fs path = (case fs path of None \<Rightarrow> False | Some b \<Rightarrow> True)"

definition getsize :: "files \<Rightarrow> string \<Rightarrow> nat" where
  "getsize fs path = (case fs path of None \<Rightarrow> 0 | Some b \<Rightarrow> length b)"

text \<open>\<^verbatim>\<open>open(path, 'rb')\<close> followed by \<^verbatim>\<open>f.read()\<close>.\<close>

definition read_bytes :: "world \<Rightarrow> files \<Rightarrow> string \<Rightarrow> py_error + string" where
  "read_bytes w fs path =
     (case read_file w path of
        Some e \<Rightarrow> Inl e
      | None \<Rightarrow> (case fs path of
                  None \<Rightarrow> Inl (LibraryError ''FileNotFoundError'')
                | Some b \<Rightarrow> Inr b))"

text \<open>The four notes of lines 104, 108, 122 and 126; each starts with two line feeds.\<close>

definition audio_error_note :: string where
  "audio_error_note =
     [CHR 0x0A, CHR 0x0A] @ ''Note: Audio recording could not be attached due to an error.''"

definition audio_missing_note :: string where
  "audio_missing_note =
     [CHR 0x0A, CHR 0x0A] @ ''Note: Audio recording could not be created due to device limitations.''"

definition video_error_note :: string where
  "video_error_note =
     [CHR 0x0A, CHR 0x0A] @ ''Note: Video recording could not be attached due to an error.''"

definition video_missing_note :: string where
  "video_missing_note =
     [CHR 0x0A, CHR 0x0A] @ ''Note: Video recording could not be created due to device limitations.''"

text \<open>Lines 93 to 109: the part that the audio block attaches.\<close>

definition audio_part :: "world \<Rightarrow> files \<Rightarrow> string \<Rightarrow> mime_part" where
  "audio_part w fs audio_file =
     (if exists_file fs audio_file \<and> getsize fs audio_file > 0 then
        (case read_bytes w fs audio_file of
           Inr b \<Rightarrow> MIMEApplication b ''wav'' (basename audio_file)
         | Inl e \<Rightarrow> MIMEText audio_error_note)
      else MIMEText audio_missing_note)"

text \<open>Lines 111 to 127: the part that the video block attaches.\<close>

definition video_part :: "world \<Rightarrow> files \<Rightarrow> string \<Rightarrow> mime_part" where
  "video_part w fs video_file =
     (if exists_file fs video_file \<and> getsize fs video_file > 0 then
        (case read_bytes w fs video_file of
           Inr b \<Rightarrow> MIMEApplication b ''avi'' (basename video_file)
         | Inl e \<Rightarrow> MIMEText video_error_note)
      else MIMEText video_missing_note)"

text \<open>Line 90: the body with the time of the alert under it.\<close>

definition full_body :: "world \<Rightarrow> string \<Rightarrow> string" where
  "full_body w body = body @ [CHR 0x0A, CHR 0x0A] @ ''Time of Alert: '' @ time_now w"

text \<open>
  Lines 84 to 127 of \<^verbatim>\<open>send_email_alert\<close>: the message as it stands before it is sent.
  Line 91 is outside every \<^verbatim>\<open>try\<close>: when \<^verbatim>\<open>MIMEText\<close> raises on the body, the
  exception leaves \<^verbatim>\<open>send_email_alert\<close> and nothing after it is done.
\<close>

definition email_message ::
  "world \<Rightarrow> files \<Rightarrow> string \<Rightarrow> string list \<Rightarrow> string \<Rightarrow> string \<Rightarrow> string \<Rightarrow> string
     \<Rightarrow> py_error + message" where
  "email_message w fs sender_email recipients subject body audio_file video_file =
     (case mime_text w (full_body w body) of
        Some e \<Rightarrow> Inl e
      | None \<Rightarrow>
          Inr \<lparr> msg_from = sender_email,
                msg_to = join '', '' recipients,
                msg_subject = subject,
                parts = [MIMEText (full_body w body),
                         audio_part w fs audio_file,
                         video_part w fs video_file] \<rparr>)"

text \<open>
  Lines 131 to 136, the body of the last \<^verbatim>\<open>try\<close>, call by call: the exception that
  ends it, if any, and the calls made on the relay up to there. Serialising the message
  (line 134) is no call on the relay.
\<close>

definition smtp_session ::
  "world \<Rightarrow> string \<Rightarrow> string \<Rightarrow> string list \<Rightarrow> message \<Rightarrow> py_error option \<times> event list" where
  "smtp_session w sender_email sender_password recipients msg =
     (let c = [SmtpConnect ''smtp.gmail.com'' 587];
          t = c @ [SmtpStartTls];
          l = t @ [SmtpLogin sender_email sender_password];
          s = l @ [SmtpSendmail sender_email recipients msg];
          q = s @ [SmtpQuit]
      in case smtp_connect w of Some e \<Rightarrow> (Some e, c) | None \<Rightarrow>
        (case smtp_starttls w of Some e \<Rightarrow> (Some e, t) | None \<Rightarrow>
        (case smtp_login w sender_email sender_password of Some e \<Rightarrow> (Some e, l) | None \<Rightarrow>
        (case as_string w msg of Some e \<Rightarrow> (Some e, l) | None \<Rightarrow>
        (case smtp_sendmail w sender_email recipients msg of Some e \<Rightarrow> (Some e, s) | None \<Rightarrow>
        (case smtp_quit w of Some e \<Rightarrow> (Some e, q) | None \<Rightarrow> (None, q)))))))"

text \<open>
  \<^verbatim>\<open>send_email_alert\<close>, lines 79 to 141: \<open>Inl e\<close> is the exception of line 91,
  \<open>Inr (r, evs)\<close> the result \<open>r\<close> after the calls \<open>evs\<close>.
\<close>

definition send_email_alert ::
  "world \<Rightarrow> files \<Rightarrow> string \<Rightarrow> string \<Rightarrow> string list \<Rightarrow> string \<Rightarrow> string \<Rightarrow> string \<Rightarrow> string
     \<Rightarrow> py_error + (bool \<times> event list)" where
  "send_email_alert w fs sender_email sender_password recipients subject body audio_file video_file =
     (case email_message w fs sender_email recipients subject body audio_file video_file of
        Inl e \<Rightarrow> Inl e
      | Inr msg \<Rightarrow>
          (case smtp_session w sender_email sender_password recipients msg of
             (None, evs) \<Rightarrow> Inr (True, evs)
           | (Some e, evs) \<Rightarrow> Inr (False, evs)))"

section \<open>The alert\<close>

text \<open>\<^verbatim>\<open>os.environ.get(name, default)\<close>.\<close>

definition environ_get :: "world \<Rightarrow> string \<Rightarrow> string \<Rightarrow> string" where
  "environ_get w name dflt = (case environ w name of None \<Rightarrow> dflt | Some v \<Rightarrow> v)"

text \<open>How an f-string prints the label, which is a string unless the provider sent another value.\<close>

definition format_value :: "world \<Rightarrow> pyval \<Rightarrow> string" where
  "format_value w v = (case v of PStr s \<Rightarrow> s | _ \<Rightarrow> builtin_str w v)"

text \<open>Line 171.\<close>

definition alert_body :: "world \<Rightarrow> pyval \<Rightarrow> pyfloat option \<Rightarrow> pyfloat option \<Rightarrow> string" where
  "alert_body w location_address latitude longitude =
     ''Help needed! My current location is '' @ format_value w location_address
       @ ''. Latitude: '' @ format_coord latitude @ '', Longitude: '' @ format_coord longitude
       @ '' and do please checkout ur email!.''"

definition audio_placeholder :: string where
  "audio_placeholder = ''Placeholder audio file''"

definition video_placeholder :: string where
  "video_placeholder = ''Placeholder video file''"

text \<open>
  Lines 180 to 192. The placeholder is written outside any \<^verbatim>\<open>try\<close>, so an exception of
  that write leaves \<^verbatim>\<open>send_alert\<close>. The flag \<^verbatim>\<open>audio_recorded\<close> is returned with the
  files; the source never reads it again.
\<close>

definition record_audio :: "world \<Rightarrow> files \<Rightarrow> string \<Rightarrow> py_error + (files \<times> bool \<times> event list)" where
  "record_audio w fs audio_filename =
     (case audio w of
        AudioWritten b \<Rightarrow>
          Inr (fs(audio_filename \<mapsto> b), True,
               [Status ''Recording audio...'' True, Status ''Audio recorded successfully'' True])
      | AudioFailed e \<Rightarrow>
          (case write_file w audio_filename 0 of
             Some e' \<Rightarrow> Inl e'
           | None \<Rightarrow>
               Inr (fs(audio_filename \<mapsto> audio_placeholder), False,
                    [Status ''Recording audio...'' True,
                     Status (''Could not record audio: '' @ error_text e
                               @ ''. Sending email without audio attachment.'') False])))"

text \<open>
  Lines 203 to 208: the loop ends when the clock shows ten seconds or a read fails, and
  it has written \<open>n\<close> frames by then. \<open>None\<close> is a loop that never ends.
\<close>

partial_function (option) video_loop :: "(nat \<Rightarrow> nat) \<Rightarrow> (nat \<Rightarrow> bool) \<Rightarrow> nat \<Rightarrow> nat option" where
  "video_loop seconds ret n =
     (if seconds n < 10 then (if ret n then video_loop seconds ret (Suc n) else Some n)
      else Some n)"

text \<open>What the writer has done to the files.\<close>

definition written :: "files \<Rightarrow> string \<Rightarrow> string option \<Rightarrow> files" where
  "written fs path left = (case left of None \<Rightarrow> fs | Some b \<Rightarrow> fs(path \<mapsto> b))"

text \<open>
  Lines 219 to 224, the \<^verbatim>\<open>except\<close> of the video block, entered with the exception
  \<open>e\<close> after the updates \<open>evs\<close>; \<open>k\<close> numbers the write. An exception of this write
  leaves \<^verbatim>\<open>send_alert\<close>.
\<close>

definition video_except ::
  "world \<Rightarrow> files \<Rightarrow> string \<Rightarrow> py_error \<Rightarrow> event list \<Rightarrow> nat
     \<Rightarrow> py_error + (files \<times> bool \<times> event list)" where
  "video_except w fs video_filename e evs k =
     (let evs' = evs @ [Status (''Error recording video: '' @ error_text e
                                 @ ''. Sending email without video attachment.'') False]
      in if \<not> exists_file fs video_filename then
           (case write_file w video_filename k of
              Some e' \<Rightarrow> Inl e'
            | None \<Rightarrow> Inr (fs(video_filename \<mapsto> video_placeholder), False, evs'))
         else Inr (fs, False, evs'))"

text \<open>
  Lines 194 to 224. \<^verbatim>\<open>video_recorded\<close> is returned like \<^verbatim>\<open>audio_recorded\<close>. The
  placeholder write of line 217 is inside the \<^verbatim>\<open>try\<close>, so the \<^verbatim>\<open>except\<close>
  handles its exception. When the device opens, no branch writes a placeholder: the file
  is what the writer left.
\<close>

definition capture_video ::
  "world \<Rightarrow> files \<Rightarrow> string \<Rightarrow> (py_error + (files \<times> bool \<times> event list)) option" where
  "capture_video w fs video_filename =
     (let recording = [Status ''Recording video...'' True] in
      case video w of
        VideoFailed e left \<Rightarrow>
          Some (video_except w (written fs video_filename left) video_filename e recording 0)
      | VideoClosed \<Rightarrow>
          (let closed = recording @
                  [Status ''Could not open video device. Sending email without video attachment.'' False]
           in case write_file w video_filename 0 of
                None \<Rightarrow> Some (Inr (fs(video_filename \<mapsto> video_placeholder), False, closed))
              | Some e \<Rightarrow> Some (video_except w fs video_filename e closed 1))
      | VideoOpened seconds ret left \<Rightarrow>
          (case video_loop seconds ret 0 of
             None \<Rightarrow> None
           | Some n \<Rightarrow>
               Some (Inr (written fs video_filename (left n), True,
                          recording @ [Status ''Video recorded successfully'' True]))))"

text \<open>Lines 166 to 176: the settings read from the environment and the two file names.\<close>

definition sender_email :: "world \<Rightarrow> string" where
  "sender_email w = environ_get w ''SENDER_EMAIL'' ''gokuad021@rmkcet.ac.in''"

definition sender_password :: "world \<Rightarrow> string" where
  "sender_password w = environ_get w ''EMAIL_PASSWORD'' ''sugs hwmo fkxc sazi''"

definition email_recipients :: "world \<Rightarrow> string list" where
  "email_recipients w =
     split_on CHR '','' (environ_get w ''EMAIL_RECIPIENTS'' ''gokuad021@rmkcet.ac.in'')"

definition audio_filename :: "world \<Rightarrow> string" where
  "audio_filename w = ''alert_audio_'' @ stamp_now w @ ''.wav''"

definition video_filename :: "world \<Rightarrow> string" where
  "video_filename w = ''alert_video_'' @ stamp_now w @ ''.avi''"

text \<open>
  Lines 226 to 243: both channels are tried, and the result is the disjunction of their
  two results. An exception of \<^verbatim>\<open>send_email_alert\<close> is not handled here.
\<close>

definition dispatch :: "world \<Rightarrow> files \<Rightarrow> string \<Rightarrow> py_error + (bool \<times> event list)" where
  "dispatch w fs body =
     (case send_email_alert w fs (sender_email w) (sender_password w) (email_recipients w)
             ''Emergency Alert!'' body (audio_filename w) (video_filename w) of
        Inl e \<Rightarrow> Inl e
      | Inr (email_success, email_events) \<Rightarrow>
     (case send_sms_alert body of
        (sms_success, sms_events) \<Rightarrow>
          Inr (email_success \<or> sms_success,
           [Status ''Sending email alert...'' True] @ email_events
           @ [if email_success then Status ''Email alert sent successfully'' True
              else Status ''Failed to send email alert'' False]
           @ [Status ''Sending SMS alert...'' True] @ sms_events
           @ [if sms_success then Status ''SMS alert sent successfully'' True
              else Status ''Failed to send SMS alert'' False]
           @ [Status ''Emergency alert process completed.'' True])))"

text \<open>The address of line 30.\<close>

definition ipinfo_url :: string where
  "ipinfo_url = ''https://ipinfo.io/json''"

text \<open>
  \<^verbatim>\<open>send_alert\<close>, lines 144 to 243, started on the files \<open>fs\<close>. \<open>None\<close> is a run
  that never returns, \<open>Some (Inl e)\<close> a run that ends with the exception \<open>e\<close>, and
  \<open>Some (Inr (r, fs', evs))\<close> a run that returns \<open>r\<close>, leaves the files \<open>fs'\<close> and has
  done \<open>evs\<close>.
\<close>

definition send_alert ::
  "world \<Rightarrow> files \<Rightarrow> string option \<Rightarrow> (py_error + (bool \<times> files \<times> event list)) option" where
  "send_alert w fs api_key =
     (let start = [Status ''Starting emergency alert process...'' True,
                   Status ''Detecting location...'' True,
                   HttpGet ipinfo_url]
      in case get_ip_location (builtin_float w) (requests_get w ipinfo_url) of
        (latitude, longitude) \<Rightarrow>
          if latitude = None \<or> longitude = None then
            Some (Inr (False, fs, start @ [Status ''Unable to fetch location.'' False]))
          else
            (case reverse_geocode (requests_get w) api_key latitude longitude of
               (location_address, geocoding) \<Rightarrow>
            (let located = [Status (''Location detected: '' @ format_value w location_address) True];
                 body = alert_body w location_address latitude longitude
             in case record_audio w fs (audio_filename w) of
                  Inl e \<Rightarrow> Some (Inl e)
                | Inr (fs1, audio_recorded, audio_events) \<Rightarrow>
                    (case capture_video w fs1 (video_filename w) of
                       None \<Rightarrow> None
                     | Some (Inl e) \<Rightarrow> Some (Inl e)
                     | Some (Inr (fs2, video_recorded, video_events)) \<Rightarrow>
                         (case dispatch w fs2 body of
                            Inl e \<Rightarrow> Some (Inl e)
                          | Inr (result, dispatch_events) \<Rightarrow>
                              Some (Inr (result, fs2,
                                         start @ geocoding @ located @ audio_events
                                         @ video_events @ dispatch_events)))))))"

text \<open>\<^verbatim>\<open>emergency_sos\<close>, lines 246 to 250.\<close>

definition emergency_sos ::
  "world \<Rightarrow> files \<Rightarrow> string option \<Rightarrow> (py_error + (bool \<times> files \<times> event list)) option" where
  "emergency_sos w fs api_key = send_alert w fs api_key"

section \<open>Reading the claims\<close>


text \<open>
  The two ways a recording is represented in a message: as an attachment of its subtype,
  or as one of the two notes of its kind.
\<close>

fun audio_attachment :: "mime_part \<Rightarrow> bool" where
  "audio_attachment (MIMEApplication b st fn) = (st = ''wav'')"
| "audio_attachment (MIMEText t) = False"

fun audio_note :: "mime_part \<Rightarrow> bool" where
  "audio_note (MIMEText t) = (t = audio_error_note \<or> t = audio_missing_note)"
| "audio_note (MIMEApplication b st fn) = False"

fun video_attachment :: "mime_part \<Rightarrow> bool" where
  "video_attachment (MIMEApplication b st fn) = (st = ''avi'')"
| "video_attachment (MIMEText t) = False"

fun video_note :: "mime_part \<Rightarrow> bool" where
  "video_note (MIMEText t) = (t = video_error_note \<or> t = video_missing_note)"
| "video_note (MIMEApplication b st fn) = False"

definition count_parts :: "(mime_part \<Rightarrow> bool) \<Rightarrow> message \<Rightarrow> nat" where
  "count_parts P m = length (filter P (parts m))"

text \<open>The same surroundings, except that reading the file \<open>path\<close> raises \<open>e\<close>.\<close>

definition failing_read :: "world \<Rightarrow> string \<Rightarrow> py_error \<Rightarrow> world" where
  "failing_read w path e = w\<lparr>read_file := (read_file w)(path := Some e)\<rparr>"

text \<open>
  The guard of line 158, the updates of a run that returns at line 160, and the body that
  line 171 builds in a run that goes on.
\<close>

definition location_failed :: "world \<Rightarrow> bool" where
  "location_failed w =
     (case get_ip_location (builtin_float w) (requests_get w ipinfo_url) of
        (latitude, longitude) \<Rightarrow> latitude = None \<or> longitude = None)"

definition early_events :: "event list" where
  "early_events =
     [Status ''Starting emergency alert process...'' True,
      Status ''Detecting location...'' True,
      HttpGet ipinfo_url,
      Status ''Unable to fetch location.'' False]"

definition message_body :: "world \<Rightarrow> string option \<Rightarrow> string" where
  "message_body w api_key =
     (case get_ip_location (builtin_float w) (requests_get w ipinfo_url) of
        (latitude, longitude) \<Rightarrow>
          alert_body w (fst (reverse_geocode (requests_get w) api_key latitude longitude))
            latitude longitude)"

text \<open>The updates and requests of lines 153 to 163 in a run that goes on.\<close>

definition located_events :: "world \<Rightarrow> string option \<Rightarrow> event list" where
  "located_events w api_key =
     (case get_ip_location (builtin_float w) (requests_get w ipinfo_url) of
        (latitude, longitude) \<Rightarrow>
          (case reverse_geocode (requests_get w) api_key latitude longitude of
             (location_address, geocoding) \<Rightarrow>
               [Status ''Starting emergency alert process...'' True,
                Status ''Detecting location...'' True,
                HttpGet ipinfo_url]
               @ geocoding
               @ [Status (''Location detected: '' @ format_value w location_address) True]))"

text \<open>The parts of every message handed to \<^verbatim>\<open>sendmail\<close>.\<close>

fun sent_parts :: "event list \<Rightarrow> mime_part list list" where
  "sent_parts [] = []"
| "sent_parts (SmtpSendmail s r m # evs) = parts m # sent_parts evs"
| "sent_parts (ev # evs) = sent_parts evs"

section \<open>Sample surroundings\<close>

text \<open>
  The inputs on which the theorems below are run. \<open>float_table\<close> gives \<^verbatim>\<open>float()\<close> on
  the three strings that the samples parse; no sample parses another string, and none
  formats a label that is not a string.
\<close>

definition float_table :: "string \<Rightarrow> pyfloat option" where
  "float_table s =
     (if s = ''0'' then Some (PyFloat ''0.0'')
      else if s = ''12.9'' then Some (PyFloat ''12.9'')
      else if s = ''77.6'' then Some (PyFloat ''77.6'')
      else None)"

definition ipinfo_reply :: "pyval \<Rightarrow> py_error + http_response" where
  "ipinfo_reply data = Inr \<lparr>status_code = 200, json = Inr data\<rparr>"

definition here_reply :: "pyval \<Rightarrow> string \<Rightarrow> py_error + http_response" where
  "here_reply label url =
     Inr \<lparr>status_code = 200,
          json = Inr (PDict [(''items'', PList [PDict [(''address'', PDict [(''label'', label)])]])])\<rparr>"


text \<open>
  The texts of the samples are ASCII, except for one label that holds the lone surrogate
  U+D83D as the three bytes ED A0 BD; no other sample text holds the byte ED.
  \<^verbatim>\<open>MIMEText\<close> accepts the ASCII texts and raises on the surrogate. Of the sample
  messages, \<^verbatim>\<open>as_string\<close> accepts all but the one whose \<^verbatim>\<open>To\<close> header holds a line
  feed.
\<close>

definition lone_surrogate :: string where
  "lone_surrogate = [CHR 0xED, CHR 0xA0, CHR 0xBD]"

definition sample_mime_text :: "string \<Rightarrow> py_error option" where
  "sample_mime_text t =
     (if CHR 0xED \<in> set t then Some (LibraryError ''UnicodeEncodeError'') else None)"

definition sample_as_string :: "message \<Rightarrow> py_error option" where
  "sample_as_string m =
     (if CHR 0x0A \<in> set (msg_to m) then Some (LibraryError ''HeaderWriteError'') else None)"

text \<open>
  A run in which everything works: the lookup places the caller at 12.9, 77.6, both
  devices record, the camera delivers a frame at every read and the clock shows one more
  second at every test, no variable of the environment is set, and the relay accepts the
  password that the source carries.
\<close>

definition calm_world :: world where
  "calm_world =
     \<lparr> builtin_float = float_table,
       builtin_str = (\<lambda>v. ''?''),
       requests_get = (\<lambda>url. if url = ipinfo_url then ipinfo_reply (PDict [(''loc'', PStr ''12.9,77.6'')])
                                 else here_reply (PStr ''Main St'') url),
       environ = (\<lambda>name. None),
       stamp_now = ''20250101_120000'',
       time_now = ''2025-01-01 12:00:21'',
       audio = AudioWritten ''RIFF-WAVE'',
       video = VideoOpened (\<lambda>i. i) (\<lambda>i. True) (\<lambda>n. Some ''RIFF-AVI''),
       write_file = (\<lambda>path k. None),
       read_file = (\<lambda>path. None),
       mime_text = sample_mime_text,
       smtp_connect = None,
       smtp_starttls = None,
       smtp_login = (\<lambda>user password. if password = ''sugs hwmo fkxc sazi'' then None
                                     else Some (LibraryError ''SMTPAuthenticationError'')),
       as_string = sample_as_string,
       smtp_sendmail = (\<lambda>sender recipients msg. None),
       smtp_quit = None \<rparr>"

text \<open>
  Variations of it: a relay that rejects the login, a lookup that cannot connect, an
  audio device that fails, a camera that opens but delivers no frame while the
  writer creates no file, a geocoder whose label ends in a lone surrogate, and a list of
  recipients with a line feed in it.
\<close>

definition surrogate_world :: world where
  "surrogate_world =
     calm_world\<lparr>requests_get :=
       \<lambda>url. if url = ipinfo_url then ipinfo_reply (PDict [(''loc'', PStr ''12.9,77.6'')])
              else here_reply (PStr (''Main St '' @ lone_surrogate)) url\<rparr>"

definition linefeed_world :: world where
  "linefeed_world =
     calm_world\<lparr>environ :=
       \<lambda>name. if name = ''EMAIL_RECIPIENTS'' then Some (''a@x.org,'' @ [CHR 0x0A] @ ''b@x.org'')
               else None\<rparr>"

definition rejecting_world :: world where
  "rejecting_world =
     calm_world\<lparr>smtp_login := \<lambda>user password. Some (LibraryError ''SMTPAuthenticationError'')\<rparr>"

definition offline_world :: world where
  "offline_world = calm_world\<lparr>requests_get := \<lambda>url. Inl (LibraryError ''ConnectionError'')\<rparr>"

definition silent_world :: world where
  "silent_world = calm_world\<lparr>audio := AudioFailed (LibraryError ''PortAudioError'')\<rparr>"

definition blind_world :: world where
  "blind_world = calm_world\<lparr>video := VideoOpened (\<lambda>i. 0) (\<lambda>i. False) (\<lambda>n. None)\<rparr>"

text \<open>Files and updates of these runs.\<close>

definition two_files :: files where
  "two_files = [''a.wav'' \<mapsto> ''RIFF-WAVE'', ''v.avi'' \<mapsto> ''RIFF-AVI'']"

definition recorded_files :: files where
  "recorded_files =
     [''alert_audio_20250101_120000.wav'' \<mapsto> ''RIFF-WAVE'',
      ''alert_video_20250101_120000.avi'' \<mapsto> ''RIFF-AVI'']"

definition rejected_events :: "event list" where
  "rejected_events =
        [Status ''Starting emergency alert process...'' True,
         Status ''Detecting location...'' True,
         HttpGet ''https://ipinfo.io/json'',
         HttpGet
          ''https://geocode.reverse.hereapi.com/v1/reverse?at=12.9,77.6&apiKey=key'',
         Status ''Location detected: Main St'' True,
         Status ''Recording audio...'' True,
         Status ''Audio recorded successfully'' True,
         Status ''Recording video...'' True,
         Status ''Video recorded successfully'' True,
         Status ''Sending email alert...'' True,
         SmtpConnect ''smtp.gmail.com'' 587, SmtpStartTls,
         SmtpLogin ''gokuad021@rmkcet.ac.in'' ''sugs hwmo fkxc sazi'',
         Status ''Failed to send email alert'' False,
         Status ''Sending SMS alert...'' True,
         Status ''SMS alert sent successfully'' True,
         Status ''Emergency alert process completed.'' True]"

section \<open>Unfolding the model\<close>

lemmas sample_worlds =
  calm_world_def rejecting_world_def offline_world_def silent_world_def blind_world_def
  surrogate_world_def linefeed_world_def float_table_def ipinfo_reply_def here_reply_def
  sample_mime_text_def sample_as_string_def lone_surrogate_def

lemmas location_defs =
  get_ip_location_def get_ip_location_try_def ipinfo_url_def list_item_def py_float_def
  reverse_geocode_def reverse_geocode_try_def not_key_def not_coord_def geocode_url_def
  format_key_def coordinates_label_def

lemmas capture_defs =
  record_audio_def capture_video_def video_except_def written_def audio_filename_def
  video_filename_def audio_placeholder_def video_placeholder_def exists_file_def

lemmas email_defs =
  dispatch_def send_email_alert_def send_sms_alert_def smtp_session_def email_message_def
  sender_email_def sender_password_def email_recipients_def environ_get_def
  audio_part_def video_part_def getsize_def read_bytes_def basename_def
  alert_body_def format_value_def full_body_def


lemma and_then_Inl: "and_then m f = Inl e \<longleftrightarrow> m = Inl e \<or> (\<exists>x. m = Inr x \<and> f x = Inl e)"
  by (cases m) auto


lemma video_loop_returns:
  assumes "n \<le> k" and "\<not> (seconds k < 10 \<and> ret k)"
  shows "\<exists>m. video_loop seconds ret n = Some m"
  using assms
proof (induction "k - n" arbitrary: n)
  case 0
  then have "n = k" by simp
  with 0 show ?case by (subst video_loop.simps) auto
next
  case (Suc d)
  then have "Suc n \<le> k" "d = k - Suc n" by simp_all
  from Suc.hyps(1) [OF this(2) this(1) Suc.prems(2)]
  obtain m where "video_loop seconds ret (Suc n) = Some m" by blast
  then show ?case by (subst video_loop.simps) auto
qed

lemma calm_loop: "video_loop (\<lambda>i. i) (\<lambda>i. True) 0 = Some 10"
  by (simp add: video_loop.simps)

lemma calm_location:
  "get_ip_location (builtin_float calm_world) (requests_get calm_world ipinfo_url)
     = (Some (PyFloat ''12.9''), Some (PyFloat ''77.6''))"
  by (simp add: sample_worlds location_defs)

section \<open>The location step\<close>

lemma coordinates_label_nonempty: "coordinates_label latitude longitude \<noteq> []"
  by (simp add: coordinates_label_def)



lemma get_ip_location_both:
  "get_ip_location float_of got = (a, b) \<Longrightarrow> (a = None) = (b = None)"
  by (auto simp: get_ip_location_def split: sum.splits prod.splits)












section \<open>The message\<close>

lemma body_text_no_note:
  "full_body w body \<noteq> audio_error_note" "full_body w body \<noteq> audio_missing_note"
  "full_body w body \<noteq> video_error_note" "full_body w body \<noteq> video_missing_note"
proof -
  have t: "CHR ''T'' \<in> set (full_body w body)" by (simp add: full_body_def)
  have "CHR ''T'' \<notin> set audio_error_note" "CHR ''T'' \<notin> set audio_missing_note"
    "CHR ''T'' \<notin> set video_error_note" "CHR ''T'' \<notin> set video_missing_note"
    by (simp_all add: audio_error_note_def audio_missing_note_def video_error_note_def
        video_missing_note_def)
  with t show "full_body w body \<noteq> audio_error_note" "full_body w body \<noteq> audio_missing_note"
    "full_body w body \<noteq> video_error_note" "full_body w body \<noteq> video_missing_note"
    by metis+
qed

lemma audio_part_cases:
  "(\<exists>b. audio_part w fs p = MIMEApplication b ''wav'' (basename p))
   \<or> audio_part w fs p = MIMEText audio_error_note
   \<or> audio_part w fs p = MIMEText audio_missing_note"
  by (auto simp: audio_part_def split: sum.splits)

lemma video_part_cases:
  "(\<exists>b. video_part w fs p = MIMEApplication b ''avi'' (basename p))
   \<or> video_part w fs p = MIMEText video_error_note
   \<or> video_part w fs p = MIMEText video_missing_note"
  by (auto simp: video_part_def split: sum.splits)

lemma notes_distinct:
  "audio_error_note \<noteq> video_error_note" "audio_error_note \<noteq> video_missing_note"
  "audio_missing_note \<noteq> video_error_note" "audio_missing_note \<noteq> video_missing_note"
  by (simp_all add: audio_error_note_def audio_missing_note_def video_error_note_def
        video_missing_note_def)

lemma audio_part_repr:
  "audio_attachment (audio_part w fs p) \<noteq> audio_note (audio_part w fs p)"
  "\<not> video_attachment (audio_part w fs p)" "\<not> video_note (audio_part w fs p)"
proof -
  consider b where "audio_part w fs p = MIMEApplication b ''wav'' (basename p)"
    | "audio_part w fs p = MIMEText audio_error_note"
    | "audio_part w fs p = MIMEText audio_missing_note"
    using audio_part_cases [of w fs p] by blast
  then have "audio_attachment (audio_part w fs p) \<noteq> audio_note (audio_part w fs p)
    \<and> \<not> video_attachment (audio_part w fs p) \<and> \<not> video_note (audio_part w fs p)"
  proof cases
    case 1
    then show ?thesis by simp
  next
    case 2
    then show ?thesis by (simp add: notes_distinct)
  next
    case 3
    then show ?thesis by (simp add: notes_distinct)
  qed
  then show "audio_attachment (audio_part w fs p) \<noteq> audio_note (audio_part w fs p)"
    "\<not> video_attachment (audio_part w fs p)" "\<not> video_note (audio_part w fs p)"
    by blast+
qed

lemma video_part_repr:
  "video_attachment (video_part w fs p) \<noteq> video_note (video_part w fs p)"
  "\<not> audio_attachment (video_part w fs p)" "\<not> audio_note (video_part w fs p)"
proof -
  consider b where "video_part w fs p = MIMEApplication b ''avi'' (basename p)"
    | "video_part w fs p = MIMEText video_error_note"
    | "video_part w fs p = MIMEText video_missing_note"
    using video_part_cases [of w fs p] by blast
  then have "video_attachment (video_part w fs p) \<noteq> video_note (video_part w fs p)
    \<and> \<not> audio_attachment (video_part w fs p) \<and> \<not> audio_note (video_part w fs p)"
  proof cases
    case 1
    then show ?thesis by simp
  next
    case 2
    then show ?thesis by (simp add: notes_distinct notes_distinct [symmetric])
  next
    case 3
    then show ?thesis by (simp add: notes_distinct notes_distinct [symmetric])
  qed
  then show "video_attachment (video_part w fs p) \<noteq> video_note (video_part w fs p)"
    "\<not> audio_attachment (video_part w fs p)" "\<not> audio_note (video_part w fs p)"
    by blast+
qed

lemma email_message_Inr:
  "email_message w fs s r subj body a v = Inr m \<longleftrightarrow>
     mime_text w (full_body w body) = None
     \<and> m = \<lparr> msg_from = s, msg_to = join '', '' r, msg_subject = subj,
             parts = [MIMEText (full_body w body), audio_part w fs a, video_part w fs v] \<rparr>"
  by (auto simp: email_message_def split: option.splits)

lemma email_message_Inl:
  "email_message w fs s r subj body a v = Inl e \<longleftrightarrow> mime_text w (full_body w body) = Some e"
  by (auto simp: email_message_def split: option.splits)

lemma count_one:
  assumes "parts m = [MIMEText (full_body w body), audio_part w fs a, video_part w fs v]"
  shows "count_parts audio_attachment m + count_parts audio_note m = 1"
proof (cases "audio_attachment (audio_part w fs a)")
  case True
  with audio_part_repr(1) [of w fs a] have "\<not> audio_note (audio_part w fs a)" by simp
  with True assms show ?thesis
    by (simp add: count_parts_def video_part_repr body_text_no_note)
next
  case False
  with audio_part_repr(1) [of w fs a] have "audio_note (audio_part w fs a)" by simp
  with False assms show ?thesis
    by (simp add: count_parts_def video_part_repr body_text_no_note)
qed

lemma count_one_v:
  assumes "parts m = [MIMEText (full_body w body), audio_part w fs a, video_part w fs v]"
  shows "count_parts video_attachment m + count_parts video_note m = 1"
proof (cases "video_attachment (video_part w fs v)")
  case True
  with video_part_repr(1) [of w fs v] have "\<not> video_note (video_part w fs v)" by simp
  with True assms show ?thesis
    by (simp add: count_parts_def audio_part_repr body_text_no_note)
next
  case False
  with video_part_repr(1) [of w fs v] have "video_note (video_part w fs v)" by simp
  with False assms show ?thesis
    by (simp add: count_parts_def audio_part_repr body_text_no_note)
qed

lemma read_bytes_failing_same:
  "read_bytes (failing_read w p e) fs p = Inl e"
  by (simp add: read_bytes_def failing_read_def)

lemma read_bytes_failing_other:
  "q \<noteq> p \<Longrightarrow> read_bytes (failing_read w p e) fs q = read_bytes w fs q"
  by (simp add: read_bytes_def failing_read_def)

lemma failing_read_body [simp]: "full_body (failing_read w p e) body = full_body w body"
  by (simp add: failing_read_def full_body_def)

lemma failing_read_mime_text [simp]: "mime_text (failing_read w p e) = mime_text w"
  by (simp add: failing_read_def)

lemma degrade_audio:
  assumes "exists_file fs a" "getsize fs a > 0" "a \<noteq> v"
    and "email_message w fs s r subj body a v = Inr m"
  shows "\<exists>m'. email_message (failing_read w a e) fs s r subj body a v = Inr m'
           \<and> parts m' = (parts m) [1 := MIMEText audio_error_note]"
  using assms
  by (simp add: email_message_Inr audio_part_def video_part_def read_bytes_failing_same
      read_bytes_failing_other)

lemma degrade_video:
  assumes "exists_file fs v" "getsize fs v > 0" "a \<noteq> v"
    and "email_message w fs s r subj body a v = Inr m"
  shows "\<exists>m'. email_message (failing_read w v e) fs s r subj body a v = Inr m'
           \<and> parts m' = (parts m) [2 := MIMEText video_error_note]"
  using assms
  by (simp add: email_message_Inr audio_part_def video_part_def read_bytes_failing_same
      read_bytes_failing_other)

text \<open>
  C3, as amended. Line 91 decides whether the message is built at all: when
  \<^verbatim>\<open>MIMEText\<close> raises on the body, that exception is the outcome of the whole phase and
  it leaves \<^verbatim>\<open>send_email_alert\<close>. When \<^verbatim>\<open>MIMEText\<close> accepts the body, the phase
  succeeds whatever the two files are (missing, empty, placeholder or recording, readable
  or not): the parts are the body and exactly one representation of the audio and of the
  video, the attachment or a note, and an error of reading one file turns that file's
  part into its note and leaves the other parts as they were.
\<close>

theorem email_message_one_representation:
  "(mime_text w (full_body w body) = Some x \<longrightarrow>
      email_message w fs sender recipients subject body audio_file video_file = Inl x
      \<and> send_email_alert w fs sender password recipients subject body audio_file video_file = Inl x)
   \<and> (mime_text w (full_body w body) = None \<longrightarrow>
      (\<exists>m. email_message w fs sender recipients subject body audio_file video_file = Inr m
         \<and> length (parts m) = 3
         \<and> count_parts audio_attachment m + count_parts audio_note m = 1
         \<and> count_parts video_attachment m + count_parts video_note m = 1
         \<and> (exists_file fs audio_file \<and> 0 < getsize fs audio_file \<and> audio_file \<noteq> video_file \<longrightarrow>
              (\<exists>m'. email_message (failing_read w audio_file e) fs sender recipients subject body
                       audio_file video_file = Inr m'
                  \<and> parts m' = (parts m) [1 := MIMEText audio_error_note]))
         \<and> (exists_file fs video_file \<and> 0 < getsize fs video_file \<and> audio_file \<noteq> video_file \<longrightarrow>
              (\<exists>m'. email_message (failing_read w video_file e) fs sender recipients subject body
                       audio_file video_file = Inr m'
                  \<and> parts m' = (parts m) [2 := MIMEText video_error_note]))))"
proof (intro conjI impI)
  assume "mime_text w (full_body w body) = Some x"
  then show "email_message w fs sender recipients subject body audio_file video_file = Inl x"
    by (simp add: email_message_Inl)
  then show "send_email_alert w fs sender password recipients subject body audio_file video_file
               = Inl x"
    by (simp add: send_email_alert_def)
next
  assume ok: "mime_text w (full_body w body) = None"
  define m where "m = \<lparr> msg_from = sender, msg_to = join '', '' recipients, msg_subject = subject,
     parts = [MIMEText (full_body w body), audio_part w fs audio_file, video_part w fs video_file] \<rparr>"
  have built: "email_message w fs sender recipients subject body audio_file video_file = Inr m"
    using ok by (simp add: email_message_Inr m_def)
  have p: "parts m = [MIMEText (full_body w body), audio_part w fs audio_file,
                      video_part w fs video_file]"
    by (simp add: m_def)
  have a: "exists_file fs audio_file \<and> 0 < getsize fs audio_file \<and> audio_file \<noteq> video_file \<longrightarrow>
              (\<exists>m'. email_message (failing_read w audio_file e) fs sender recipients subject body
                       audio_file video_file = Inr m'
                  \<and> parts m' = (parts m) [1 := MIMEText audio_error_note])"
    using degrade_audio [OF _ _ _ built] by blast
  have v: "exists_file fs video_file \<and> 0 < getsize fs video_file \<and> audio_file \<noteq> video_file \<longrightarrow>
              (\<exists>m'. email_message (failing_read w video_file e) fs sender recipients subject body
                       audio_file video_file = Inr m'
                  \<and> parts m' = (parts m) [2 := MIMEText video_error_note])"
    using degrade_video [OF _ _ _ built] by blast
  from p have "length (parts m) = 3" by simp
  with built count_one [OF p] count_one_v [OF p] a v
  show "\<exists>m. email_message w fs sender recipients subject body audio_file video_file = Inr m
         \<and> length (parts m) = 3
         \<and> count_parts audio_attachment m + count_parts audio_note m = 1
         \<and> count_parts video_attachment m + count_parts video_note m = 1
         \<and> (exists_file fs audio_file \<and> 0 < getsize fs audio_file \<and> audio_file \<noteq> video_file \<longrightarrow>
              (\<exists>m'. email_message (failing_read w audio_file e) fs sender recipients subject body
                       audio_file video_file = Inr m'
                  \<and> parts m' = (parts m) [1 := MIMEText audio_error_note]))
         \<and> (exists_file fs video_file \<and> 0 < getsize fs video_file \<and> audio_file \<noteq> video_file \<longrightarrow>
              (\<exists>m'. email_message (failing_read w video_file e) fs sender recipients subject body
                       audio_file video_file = Inr m'
                  \<and> parts m' = (parts m) [2 := MIMEText video_error_note]))"
    by blast
qed

theorem email_message_one_representation_witness:
  "(\<exists>m. email_message calm_world two_files ''me'' [''you''] ''s'' ''b'' ''a.wav'' ''v.avi'' = Inr m
       \<and> count_parts audio_attachment m + count_parts audio_note m = 1
       \<and> (\<exists>m'. email_message (failing_read calm_world ''a.wav'' (LibraryError ''PermissionError''))
                  two_files ''me'' [''you''] ''s'' ''b'' ''a.wav'' ''v.avi'' = Inr m'
              \<and> parts m' = (parts m) [1 := MIMEText audio_error_note]))
   \<and> email_message calm_world two_files ''me'' [''you''] ''s'' lone_surrogate ''a.wav'' ''v.avi''
       = Inl (LibraryError ''UnicodeEncodeError'')"
  using
    email_message_one_representation [of calm_world "''b''" _ two_files "''me''" "[''you'']" "''s''"
      "''a.wav''" "''v.avi''" _ "LibraryError ''PermissionError''"]
    email_message_one_representation [of calm_world lone_surrogate
      "LibraryError ''UnicodeEncodeError''" two_files "''me''" "[''you'']" "''s''"
      "''a.wav''" "''v.avi''"]
  by (auto simp: two_files_def exists_file_def getsize_def calm_world_def full_body_def
      sample_mime_text_def lone_surrogate_def)

text \<open>
  C3 as stated promises that the phase succeeds as a whole on every input. A geocoder
  label that ends in a lone surrogate reaches the body of line 171; \<^verbatim>\<open>MIMEText\<close>
  raises on it at line 91, no message is built, and the exception leaves
  \<^verbatim>\<open>send_alert\<close> after both recordings were made.
\<close>

theorem email_message_surrogate_counterexample:
  "email_message surrogate_world recorded_files (sender_email surrogate_world)
     (email_recipients surrogate_world) ''Emergency Alert!''
     (message_body surrogate_world (Some ''key''))
     (audio_filename surrogate_world) (video_filename surrogate_world)
     = Inl (LibraryError ''UnicodeEncodeError'')
   \<and> send_alert surrogate_world Map.empty (Some ''key'')
     = Some (Inl (LibraryError ''UnicodeEncodeError''))"
  by (simp add: send_alert_def message_body_def sample_worlds location_defs capture_defs
      email_defs calm_loop)

text \<open>
  C2, run on the source: the audio device fails and the camera works. The placeholder
  that line 192 writes is not empty, so the test of line 94 lets it through: the message
  carries it as a \<^verbatim>\<open>wav\<close> attachment next to the video, and no note.
\<close>

theorem placeholder_audio_is_attached:
  "(case send_alert silent_world Map.empty (Some ''key'') of
      Some (Inr (result, fs', evs)) \<Rightarrow>
        map tl (sent_parts evs) =
          [[MIMEApplication ''Placeholder audio file'' ''wav'' ''alert_audio_20250101_120000.wav'',
            MIMEApplication ''RIFF-AVI'' ''avi'' ''alert_video_20250101_120000.avi'']]
    | _ \<Rightarrow> False)"
  by (simp add: send_alert_def sample_worlds location_defs capture_defs email_defs calm_loop)

section \<open>The channels\<close>

lemma smtp_session_None:
  "fst (smtp_session w s p r m) = None \<longleftrightarrow>
     smtp_connect w = None \<and> smtp_starttls w = None \<and> smtp_login w s p = None
     \<and> as_string w m = None \<and> smtp_sendmail w s r m = None \<and> smtp_quit w = None"
  by (auto simp: smtp_session_def Let_def split: option.splits)

lemma smtp_session_login:
  assumes "smtp_connect w = None" and "smtp_starttls w = None"
  shows "SmtpLogin s p \<in> set (snd (smtp_session w s p r m))"
  using assms by (auto simp: smtp_session_def Let_def split: option.splits)

lemma send_email_alert_built:
  assumes "email_message w fs s r subj body a v = Inr m"
  shows "send_email_alert w fs s p r subj body a v
           = Inr (fst (smtp_session w s p r m) = None, snd (smtp_session w s p r m))"
  using assms by (auto simp: send_email_alert_def split: prod.splits option.splits)

lemma dispatch_built:
  assumes "send_email_alert w fs (sender_email w) (sender_password w) (email_recipients w)
             ''Emergency Alert!'' body (audio_filename w) (video_filename w) = Inr (b, evs)"
  shows "dispatch w fs body =
           Inr (True,
                [Status ''Sending email alert...'' True] @ evs
                @ [if b then Status ''Email alert sent successfully'' True
                   else Status ''Failed to send email alert'' False]
                @ [Status ''Sending SMS alert...'' True, Status ''SMS alert sent successfully'' True,
                   Status ''Emergency alert process completed.'' True])"
  using assms by (simp add: dispatch_def send_sms_alert_def)

lemma dispatch_Inr:
  assumes "dispatch w fs body = Inr (result, evs)"
  shows "result" and "Status ''Sending email alert...'' True \<in> set evs"
    and "last evs = Status ''Emergency alert process completed.'' True"
    and "\<exists>b email_events.
           send_email_alert w fs (sender_email w) (sender_password w) (email_recipients w)
             ''Emergency Alert!'' body (audio_filename w) (video_filename w) = Inr (b, email_events)
           \<and> result = (b \<or> fst (send_sms_alert body))"
  using assms
  by (auto simp: dispatch_def send_sms_alert_def split: sum.splits prod.splits)

text \<open>
  C8. The channel is tried once the message is built, in the \<^verbatim>\<open>try\<close> of lines 130 to
  141. When any step of it raises (the connection, the TLS upgrade, the login, the
  serialising, the sending or the closing), \<^verbatim>\<open>send_email_alert\<close> returns \<^verbatim>\<open>False\<close>.
  In \<^verbatim>\<open>send_alert\<close> the run goes on from there: the failure is reported as an update,
  the other channel is tried, and the dispatch ends with its last update and the result
  \<^verbatim>\<open>True\<close>.
\<close>

theorem send_email_alert_failure:
  assumes "email_message w fs sender recipients subject body audio_file video_file = Inr msg"
    and "smtp_connect w = Some e \<or> smtp_starttls w = Some e
           \<or> smtp_login w sender password = Some e
           \<or> as_string w msg = Some e
           \<or> smtp_sendmail w sender recipients msg = Some e
           \<or> smtp_quit w = Some e"
  shows "(\<exists>evs. send_email_alert w fs sender password recipients subject body audio_file video_file
                  = Inr (False, evs))
         \<and> (sender = sender_email w \<and> password = sender_password w
              \<and> recipients = email_recipients w \<and> subject = ''Emergency Alert!''
              \<and> audio_file = audio_filename w \<and> video_file = video_filename w
            \<longrightarrow> (\<exists>evs. dispatch w fs body = Inr (True, evs)
                    \<and> Status ''Failed to send email alert'' False \<in> set evs
                    \<and> last evs = Status ''Emergency alert process completed.'' True))"
proof -
  from assms(2) have "fst (smtp_session w sender password recipients msg) \<noteq> None"
    unfolding smtp_session_None by auto
  with send_email_alert_built [OF assms(1), of password]
  have f: "send_email_alert w fs sender password recipients subject body audio_file video_file
             = Inr (False, snd (smtp_session w sender password recipients msg))"
    by simp
  show ?thesis
  proof (intro conjI impI)
    from f show "\<exists>evs. send_email_alert w fs sender password recipients subject body
                         audio_file video_file = Inr (False, evs)"
      by blast
  next
    assume "sender = sender_email w \<and> password = sender_password w
              \<and> recipients = email_recipients w \<and> subject = ''Emergency Alert!''
              \<and> audio_file = audio_filename w \<and> video_file = video_filename w"
    with f have "send_email_alert w fs (sender_email w) (sender_password w) (email_recipients w)
             ''Emergency Alert!'' body (audio_filename w) (video_filename w)
             = Inr (False, snd (smtp_session w sender password recipients msg))"
      by simp
    from dispatch_built [OF this]
    show "\<exists>evs. dispatch w fs body = Inr (True, evs)
                    \<and> Status ''Failed to send email alert'' False \<in> set evs
                    \<and> last evs = Status ''Emergency alert process completed.'' True"
      by simp
  qed
qed

lemma rejecting_message:
  "\<exists>m. email_message rejecting_world two_files (sender_email rejecting_world)
          (email_recipients rejecting_world) ''Emergency Alert!'' ''b''
          (audio_filename rejecting_world) (video_filename rejecting_world) = Inr m"
  by (simp add: email_message_Inr sample_worlds full_body_def)

theorem send_email_alert_failure_witness:
  "(\<exists>evs. send_email_alert rejecting_world two_files (sender_email rejecting_world)
            (sender_password rejecting_world) (email_recipients rejecting_world)
            ''Emergency Alert!'' ''b'' (audio_filename rejecting_world)
            (video_filename rejecting_world) = Inr (False, evs))
   \<and> (\<exists>evs. dispatch rejecting_world two_files ''b'' = Inr (True, evs)
          \<and> Status ''Failed to send email alert'' False \<in> set evs)"
proof -
  from rejecting_message obtain m where m:
    "email_message rejecting_world two_files (sender_email rejecting_world)
          (email_recipients rejecting_world) ''Emergency Alert!'' ''b''
          (audio_filename rejecting_world) (video_filename rejecting_world) = Inr m"
    by blast
  have l: "smtp_login rejecting_world (sender_email rejecting_world)
             (sender_password rejecting_world) = Some (LibraryError ''SMTPAuthenticationError'')"
    by (simp add: rejecting_world_def calm_world_def)
  from send_email_alert_failure [OF m, where e = "LibraryError ''SMTPAuthenticationError''"
      and password = "sender_password rejecting_world"] l
  show ?thesis by auto
qed

text \<open>
  The same for the step that is no call on the relay: with a line feed among the
  recipients, serialising the message raises after the login, nothing is sent, and the
  channel reports \<^verbatim>\<open>False\<close>.
\<close>

lemma linefeed_run:
  "send_email_alert linefeed_world recorded_files (sender_email linefeed_world)
     (sender_password linefeed_world) (email_recipients linefeed_world) ''Emergency Alert!''
     ''Help'' (audio_filename linefeed_world) (video_filename linefeed_world)
   = Inr (False, [SmtpConnect ''smtp.gmail.com'' 587, SmtpStartTls,
                  SmtpLogin ''gokuad021@rmkcet.ac.in'' ''sugs hwmo fkxc sazi''])"
  by (simp add: sample_worlds email_defs capture_defs recorded_files_def)

text \<open>
  C9, as amended. When \<^verbatim>\<open>EMAIL_PASSWORD\<close> is not set, line 167 takes the password that
  the source carries, and \<^verbatim>\<open>send_email_alert\<close> is called with it. Once the message is
  built, that password is sent to the relay in the login as soon as the connection and the
  TLS upgrade succeed, and the channel reports \<^verbatim>\<open>True\<close> exactly when no step of lines
  131 to 136 raises, \<^verbatim>\<open>False\<close> when one does; the dispatch then returns.
\<close>

theorem absent_password_uses_default:
  assumes "environ w ''EMAIL_PASSWORD'' = None"
    and "email_message w fs (sender_email w) (email_recipients w) ''Emergency Alert!'' body
           (audio_filename w) (video_filename w) = Inr msg"
  shows "sender_password w = ''sugs hwmo fkxc sazi''
    \<and> (\<exists>email_success email_events dispatch_events.
          send_email_alert w fs (sender_email w) (sender_password w) (email_recipients w)
             ''Emergency Alert!'' body (audio_filename w) (video_filename w)
            = Inr (email_success, email_events)
          \<and> email_success
              = (smtp_connect w = None \<and> smtp_starttls w = None
                 \<and> smtp_login w (sender_email w) ''sugs hwmo fkxc sazi'' = None
                 \<and> as_string w msg = None
                 \<and> smtp_sendmail w (sender_email w) (email_recipients w) msg = None
                 \<and> smtp_quit w = None)
          \<and> (smtp_connect w = None \<and> smtp_starttls w = None
              \<longrightarrow> SmtpLogin (sender_email w) ''sugs hwmo fkxc sazi'' \<in> set email_events)
          \<and> dispatch w fs body = Inr (True, dispatch_events)
          \<and> (if email_success then Status ''Email alert sent successfully'' True
              else Status ''Failed to send email alert'' False) \<in> set dispatch_events)"
proof -
  have p: "sender_password w = ''sugs hwmo fkxc sazi''"
    using assms(1) by (simp add: sender_password_def environ_get_def)
  let ?session = "smtp_session w (sender_email w) ''sugs hwmo fkxc sazi'' (email_recipients w) msg"
  have s: "send_email_alert w fs (sender_email w) (sender_password w) (email_recipients w)
             ''Emergency Alert!'' body (audio_filename w) (video_filename w)
            = Inr (fst ?session = None, snd ?session)"
    using send_email_alert_built [OF assms(2), of "sender_password w"] by (simp add: p)
  have l: "smtp_connect w = None \<and> smtp_starttls w = None
              \<longrightarrow> SmtpLogin (sender_email w) ''sugs hwmo fkxc sazi'' \<in> set (snd ?session)"
    using smtp_session_login by blast
  from dispatch_built [OF s]
  have d: "\<exists>dispatch_events. dispatch w fs body = Inr (True, dispatch_events)
          \<and> (if fst ?session = None then Status ''Email alert sent successfully'' True
              else Status ''Failed to send email alert'' False) \<in> set dispatch_events"
    by simp
  then obtain dispatch_events where d':
    "dispatch w fs body = Inr (True, dispatch_events)"
    "(if fst ?session = None then Status ''Email alert sent successfully'' True
      else Status ''Failed to send email alert'' False) \<in> set dispatch_events"
    by blast
  have n: "(fst ?session = None)
              = (smtp_connect w = None \<and> smtp_starttls w = None
                 \<and> smtp_login w (sender_email w) ''sugs hwmo fkxc sazi'' = None
                 \<and> as_string w msg = None
                 \<and> smtp_sendmail w (sender_email w) (email_recipients w) msg = None
                 \<and> smtp_quit w = None)"
    by (rule smtp_session_None)
  show ?thesis
  proof (intro conjI)
    show "sender_password w = ''sugs hwmo fkxc sazi''" by (rule p)
    show "\<exists>email_success email_events dispatch_events.
          send_email_alert w fs (sender_email w) (sender_password w) (email_recipients w)
             ''Emergency Alert!'' body (audio_filename w) (video_filename w)
            = Inr (email_success, email_events)
          \<and> email_success
              = (smtp_connect w = None \<and> smtp_starttls w = None
                 \<and> smtp_login w (sender_email w) ''sugs hwmo fkxc sazi'' = None
                 \<and> as_string w msg = None
                 \<and> smtp_sendmail w (sender_email w) (email_recipients w) msg = None
                 \<and> smtp_quit w = None)
          \<and> (smtp_connect w = None \<and> smtp_starttls w = None
              \<longrightarrow> SmtpLogin (sender_email w) ''sugs hwmo fkxc sazi'' \<in> set email_events)
          \<and> dispatch w fs body = Inr (True, dispatch_events)
          \<and> (if email_success then Status ''Email alert sent successfully'' True
              else Status ''Failed to send email alert'' False) \<in> set dispatch_events"
      apply (rule exI [of _ "fst ?session = None"])
      apply (rule exI [of _ "snd ?session"])
      apply (rule exI [of _ dispatch_events])
      using s l d' n apply simp
      done
  qed
qed

lemma calm_message:
  "\<exists>m. email_message calm_world recorded_files (sender_email calm_world)
          (email_recipients calm_world) ''Emergency Alert!'' ''Help''
          (audio_filename calm_world) (video_filename calm_world) = Inr m"
  by (simp add: email_message_Inr sample_worlds full_body_def)

theorem absent_password_uses_default_witness:
  "environ calm_world ''EMAIL_PASSWORD'' = None
   \<and> sender_password calm_world = ''sugs hwmo fkxc sazi''
   \<and> (\<exists>email_success email_events.
         send_email_alert calm_world recorded_files (sender_email calm_world)
           (sender_password calm_world) (email_recipients calm_world) ''Emergency Alert!''
           ''Help'' (audio_filename calm_world) (video_filename calm_world)
          = Inr (email_success, email_events)
         \<and> SmtpLogin ''gokuad021@rmkcet.ac.in'' ''sugs hwmo fkxc sazi'' \<in> set email_events)"
proof -
  have a: "environ calm_world ''EMAIL_PASSWORD'' = None"
    by (simp add: calm_world_def)
  from calm_message obtain m where m:
    "email_message calm_world recorded_files (sender_email calm_world)
          (email_recipients calm_world) ''Emergency Alert!'' ''Help''
          (audio_filename calm_world) (video_filename calm_world) = Inr m"
    by blast
  have c: "smtp_connect calm_world = None \<and> smtp_starttls calm_world = None"
    "sender_email calm_world = ''gokuad021@rmkcet.ac.in''"
    by (simp_all add: calm_world_def sender_email_def environ_get_def)
  from absent_password_uses_default [OF a m] a c show ?thesis by auto
qed

text \<open>
  C9 as stated promises a channel that reports false and no default secret. With nothing
  set in the environment and a relay that accepts the embedded password, the channel
  reports true after logging in with it.
\<close>

theorem absent_password_counterexample:
  "environ calm_world ''EMAIL_PASSWORD'' = None
   \<and> (\<exists>email_events.
         send_email_alert calm_world recorded_files (sender_email calm_world)
           (sender_password calm_world) (email_recipients calm_world) ''Emergency Alert!''
           ''Help'' (audio_filename calm_world) (video_filename calm_world)
          = Inr (True, email_events)
         \<and> SmtpLogin ''gokuad021@rmkcet.ac.in'' ''sugs hwmo fkxc sazi'' \<in> set email_events)"
  by (simp add: sample_worlds email_defs capture_defs recorded_files_def)

section \<open>The run\<close>

lemma send_alert_early:
  assumes "location_failed w"
  shows "send_alert w fs api_key = Some (Inr (False, fs, early_events))"
  using assms
  by (auto simp: send_alert_def location_failed_def early_events_def Let_def split: prod.splits)

lemma send_alert_late:
  assumes "\<not> location_failed w" and "send_alert w fs api_key = Some (Inr (result, fs', evs))"
  shows "\<exists>fs1 audio_recorded audio_events video_recorded video_events dispatch_events.
           record_audio w fs (audio_filename w) = Inr (fs1, audio_recorded, audio_events)
           \<and> capture_video w fs1 (video_filename w)
               = Some (Inr (fs', video_recorded, video_events))
           \<and> dispatch w fs' (message_body w api_key) = Inr (result, dispatch_events)
           \<and> evs = located_events w api_key @ audio_events @ video_events @ dispatch_events"
  using assms
  by (auto simp: send_alert_def location_failed_def message_body_def located_events_def Let_def
      split: prod.splits sum.splits option.splits if_splits)

text \<open>
  Past the guard of line 158 a run returns as soon as both recordings return and
  \<^verbatim>\<open>MIMEText\<close> accepts the body, and it returns \<^verbatim>\<open>True\<close>.
\<close>

lemma send_alert_returns:
  assumes "\<not> location_failed w"
    and "record_audio w fs (audio_filename w) = Inr (fs1, audio_recorded, audio_events)"
    and "capture_video w fs1 (video_filename w) = Some (Inr (fs2, video_recorded, video_events))"
    and "mime_text w (full_body w (message_body w api_key)) = None"
  shows "\<exists>evs. send_alert w fs api_key = Some (Inr (True, fs2, evs))"
proof -
  from assms(4) obtain m where
    "email_message w fs2 (sender_email w) (email_recipients w) ''Emergency Alert!''
       (message_body w api_key) (audio_filename w) (video_filename w) = Inr m"
    by (simp add: email_message_Inr)
  from dispatch_built [OF send_email_alert_built [OF this]]
  obtain d where "dispatch w fs2 (message_body w api_key) = Inr (True, d)" by blast
  with assms(1-3) show ?thesis
    by (auto simp: send_alert_def location_failed_def message_body_def Let_def split: prod.splits)
qed

lemma early_events_no_dispatch: "Status ''Sending email alert...'' True \<notin> set early_events"
  by (simp add: early_events_def)

lemma location_failed_iff:
  "location_failed w
     = (\<exists>e. get_ip_location_try (builtin_float w) (requests_get w ipinfo_url) = Inl e)"
  by (auto simp: location_failed_def get_ip_location_def split: sum.splits prod.splits)

lemma rejected_run:
  "send_alert rejecting_world Map.empty (Some ''key'')
     = Some (Inr (True, recorded_files, rejected_events))"
  by (simp add: send_alert_def sample_worlds location_defs capture_defs email_defs calm_loop
      rejected_events_def recorded_files_def)

text \<open>
  C4. A run of \<^verbatim>\<open>send_alert\<close> that returns after reaching the dispatch (it has emitted
  the update of line 227) has both channels' results, and it returns their disjunction.
  The SMS channel returns \<^verbatim>\<open>True\<close> and does nothing to the surroundings, so the result
  is \<^verbatim>\<open>True\<close> whatever the email channel did.
\<close>

theorem send_alert_result:
  assumes "send_alert w fs api_key = Some (Inr (result, fs', evs))"
    and "Status ''Sending email alert...'' True \<in> set evs"
  shows "(\<exists>email_success email_events.
            send_email_alert w fs' (sender_email w) (sender_password w) (email_recipients w)
              ''Emergency Alert!'' (message_body w api_key) (audio_filename w) (video_filename w)
              = Inr (email_success, email_events)
            \<and> result = (email_success \<or> fst (send_sms_alert (message_body w api_key))))
         \<and> (\<forall>message. send_sms_alert message = (True, []))
         \<and> result"
proof -
  have "\<not> location_failed w"
  proof
    assume "location_failed w"
    from send_alert_early [OF this, of fs api_key] assms(1) have "evs = early_events" by simp
    with assms(2) early_events_no_dispatch show False by simp
  qed
  from send_alert_late [OF this assms(1)]
  obtain d where d: "dispatch w fs' (message_body w api_key) = Inr (result, d)" by blast
  from dispatch_Inr(1) [OF d] dispatch_Inr(4) [OF d] show ?thesis
    by (simp add: send_sms_alert_def)
qed

theorem send_alert_result_witness:
  "send_alert rejecting_world Map.empty (Some ''key'')
     = Some (Inr (True, recorded_files, rejected_events))
   \<and> Status ''Sending email alert...'' True \<in> set rejected_events
   \<and> (\<exists>email_success email_events.
         send_email_alert rejecting_world recorded_files (sender_email rejecting_world)
           (sender_password rejecting_world) (email_recipients rejecting_world)
           ''Emergency Alert!'' (message_body rejecting_world (Some ''key''))
           (audio_filename rejecting_world) (video_filename rejecting_world)
           = Inr (email_success, email_events)
         \<and> True = (email_success
                    \<or> fst (send_sms_alert (message_body rejecting_world (Some ''key'')))))"
proof -
  have m: "Status ''Sending email alert...'' True \<in> set rejected_events"
    by (simp add: rejected_events_def)
  from send_alert_result [OF rejected_run m] rejected_run m show ?thesis by auto
qed

text \<open>
  C7, as amended. The return of line 160 is the only early return of \<^verbatim>\<open>send_alert\<close>.
  It is taken exactly when the lookup gives no coordinates, which is exactly when the
  body of its \<^verbatim>\<open>try\<close> raises, and it comes before any label is derived: the run has
  sent the one request of the lookup, leaves the files as they were and returns
  \<^verbatim>\<open>False\<close>. Every other run that returns has gone through the whole of the function:
  the label, both recordings and the dispatch, up to the last update, and it returns
  \<^verbatim>\<open>True\<close>.
\<close>

theorem send_alert_early_return:
  "(location_failed w \<longrightarrow> send_alert w fs api_key = Some (Inr (False, fs, early_events)))
   \<and> (\<not> location_failed w \<and> send_alert w fs api_key = Some (Inr (result, fs', evs)) \<longrightarrow>
        (\<exists>fs1 audio_recorded audio_events video_recorded video_events dispatch_events.
           record_audio w fs (audio_filename w) = Inr (fs1, audio_recorded, audio_events)
           \<and> capture_video w fs1 (video_filename w)
               = Some (Inr (fs', video_recorded, video_events))
           \<and> dispatch w fs' (message_body w api_key) = Inr (result, dispatch_events)
           \<and> evs = located_events w api_key @ audio_events @ video_events @ dispatch_events
           \<and> last evs = Status ''Emergency alert process completed.'' True
           \<and> result))
   \<and> location_failed w
       = (\<exists>e. get_ip_location_try (builtin_float w) (requests_get w ipinfo_url) = Inl e)"
proof (intro conjI impI)
  assume "location_failed w"
  then show "send_alert w fs api_key = Some (Inr (False, fs, early_events))"
    by (rule send_alert_early)
next
  assume "\<not> location_failed w \<and> send_alert w fs api_key = Some (Inr (result, fs', evs))"
  then obtain fs1 audio_recorded audio_events video_recorded video_events dispatch_events
    where l: "record_audio w fs (audio_filename w) = Inr (fs1, audio_recorded, audio_events)"
      "capture_video w fs1 (video_filename w) = Some (Inr (fs', video_recorded, video_events))"
      "dispatch w fs' (message_body w api_key) = Inr (result, dispatch_events)"
      "evs = located_events w api_key @ audio_events @ video_events @ dispatch_events"
    using send_alert_late by blast
  from dispatch_Inr(2) [OF l(3)] have "dispatch_events \<noteq> []" by auto
  with l(4) dispatch_Inr(3) [OF l(3)]
  have "last evs = Status ''Emergency alert process completed.'' True" by simp
  with l dispatch_Inr(1) [OF l(3)]
  show "\<exists>fs1 audio_recorded audio_events video_recorded video_events dispatch_events.
           record_audio w fs (audio_filename w) = Inr (fs1, audio_recorded, audio_events)
           \<and> capture_video w fs1 (video_filename w)
               = Some (Inr (fs', video_recorded, video_events))
           \<and> dispatch w fs' (message_body w api_key) = Inr (result, dispatch_events)
           \<and> evs = located_events w api_key @ audio_events @ video_events @ dispatch_events
           \<and> last evs = Status ''Emergency alert process completed.'' True
           \<and> result"
    by blast
next
  show "location_failed w
       = (\<exists>e. get_ip_location_try (builtin_float w) (requests_get w ipinfo_url) = Inl e)"
    by (rule location_failed_iff)
qed

lemma rejecting_located: "\<not> location_failed rejecting_world"
  by (simp add: location_failed_def sample_worlds location_defs)

theorem send_alert_early_return_witness:
  "location_failed offline_world
   \<and> send_alert offline_world Map.empty (Some ''key'') = Some (Inr (False, Map.empty, early_events))
   \<and> \<not> location_failed rejecting_world
   \<and> send_alert rejecting_world Map.empty (Some ''key'')
       = Some (Inr (True, recorded_files, rejected_events))
   \<and> (\<exists>dispatch_events.
         dispatch rejecting_world recorded_files (message_body rejecting_world (Some ''key''))
           = Inr (True, dispatch_events))
   \<and> last rejected_events = Status ''Emergency alert process completed.'' True"
proof -
  have o: "location_failed offline_world"
    by (simp add: location_failed_def sample_worlds location_defs)
  from send_alert_early_return [of offline_world Map.empty "Some ''key''"] o
  have e: "send_alert offline_world Map.empty (Some ''key'')
             = Some (Inr (False, Map.empty, early_events))"
    by simp
  from send_alert_early_return [of rejecting_world Map.empty "Some ''key''" True recorded_files
      rejected_events] rejecting_located rejected_run
  have "(\<exists>dispatch_events.
         dispatch rejecting_world recorded_files (message_body rejecting_world (Some ''key''))
           = Inr (True, dispatch_events))
     \<and> last rejected_events = Status ''Emergency alert process completed.'' True"
    by auto
  with o e rejecting_located rejected_run show ?thesis by simp
qed

text \<open>
  C7 as stated calls this path unreachable. A lookup that cannot connect takes it.
\<close>

theorem send_alert_lookup_failure_counterexample:
  "send_alert offline_world Map.empty (Some ''key'')
     = Some (Inr (False, Map.empty,
         [Status ''Starting emergency alert process...'' True,
          Status ''Detecting location...'' True,
          HttpGet ''https://ipinfo.io/json'',
          Status ''Unable to fetch location.'' False]))"
  by (simp add: send_alert_def sample_worlds location_defs)

text \<open>
  C6, run on the source: the camera opens, its first read fails, and the writer has
  created no file. No branch of lines 198 to 213 writes a placeholder: the step returns
  with \<^verbatim>\<open>video_recorded\<close> set, reports success, and the file is not there.
\<close>

theorem opened_device_leaves_no_file:
  "(case capture_video blind_world Map.empty (video_filename blind_world) of
      Some (Inr (fs', video_recorded, evs)) \<Rightarrow>
        video_recorded \<and> \<not> exists_file fs' (video_filename blind_world)
        \<and> evs = [Status ''Recording video...'' True, Status ''Video recorded successfully'' True]
    | _ \<Rightarrow> False)"
  by (simp add: sample_worlds capture_defs video_loop.simps)

end
